theory Spec2Isabelle
  imports Complex_Main
begin

section \<open>The KdV example script: data loader and PDE residual\<close>

text \<open>
  The script \<^verbatim>\<open>examples/kdv/train.py\<close> defines two callbacks, \<^verbatim>\<open>read_data_fn\<close> and
  \<^verbatim>\<open>pde_fn\<close>, that are built from calls into libraries: \<^verbatim>\<open>torch\<close> and \<^verbatim>\<open>numpy\<close>
  (external) and \<^verbatim>\<open>pinnstorch.utils\<close> (\<^verbatim>\<open>load_data\<close>, \<^verbatim>\<open>fwd_gradient\<close>). The callbacks
  are embedded with the library primitives as parameters, so that what is proved about a
  callback holds for every behaviour of the primitives; a concrete reading of the
  primitives is given afterwards, for the statements that depend on what they compute.
\<close>

subsection \<open>Errors and dictionaries\<close>

text \<open>
  \<open>KeyError\<close> is Python's own exception of a failed dictionary subscript. The three
  other errors are the ones the specification names for the failures of the helpers
  the script calls.
\<close>

datatype error =
    KeyError string
  | DataNotFoundError
  | DataFormatError
  | NonDifferentiableInputError

type_synonym 'v dict = "string \<rightharpoonup> 'v"

text \<open>The subscript \<^verbatim>\<open>d[k]\<close> of a Python dictionary: a missing key raises.\<close>

definition getitem :: "'v dict \<Rightarrow> string \<Rightarrow> error + 'v" where
  "getitem d k = (case d k of None \<Rightarrow> Inl (KeyError k) | Some v \<Rightarrow> Inr v)"

text \<open>
  Dictionaries are objects: \<^verbatim>\<open>pde_fn\<close> stores into the dictionary it is given and
  returns that same object. The store maps the address of a dictionary to its contents.
\<close>

type_synonym ref = nat

type_synonym 't heap = "ref \<Rightarrow> 't dict"

subsection \<open>The tensor primitives used by \<^verbatim>\<open>pde_fn\<close>\<close>

text \<open>
  \<open>t_neg\<close>, \<open>t_mul\<close>, \<open>t_sub\<close> are the operators \<^verbatim>\<open>-a\<close>, \<^verbatim>\<open>a * b\<close>, \<^verbatim>\<open>a - b\<close> on
  tensors and \<open>t_exp\<close> is \<^verbatim>\<open>torch.exp\<close>; each returns a new tensor and leaves its
  arguments as they are, so tensors are values here. On the tensors of one forward pass
  (\<open>u\<close> and its gradients have one shape, \<open>l1\<close> and \<open>l2\<close> are scalars) the operators
  do not raise, so they are total. \<open>fwd_gradient dy dx\<close> is
  \<^verbatim>\<open>pinnstorch.utils.fwd_gradient(dy, dx)\<close>, which may raise.
\<close>

record 't tensor_lib =
  t_neg :: "'t \<Rightarrow> 't"
  t_mul :: "'t \<Rightarrow> 't \<Rightarrow> 't"
  t_sub :: "'t \<Rightarrow> 't \<Rightarrow> 't"
  t_exp :: "'t \<Rightarrow> 't"
  fwd_gradient :: "'t \<Rightarrow> 't \<Rightarrow> error + 't"

subsection \<open>\<^verbatim>\<open>pde_fn\<close>\<close>

text \<open>
  \<^verbatim>\<open>
  def pde_fn(outputs, x, extra_variables):
      U = outputs["u"]
      U_x = pinnstorch.utils.fwd_gradient(U, x)
      U_xx = pinnstorch.utils.fwd_gradient(U_x, x)
      U_xxx = pinnstorch.utils.fwd_gradient(U_xx, x)
      outputs["f"] = -extra_variables["l1"] * U * U_x - torch.exp(extra_variables["l2"]) * U_xxx
      return outputs
  \<close>
  \<open>outputs\<close> and \<open>extra_variables\<close> are addresses of dictionaries in the store \<open>h\<close>.
  The result is the returned address or the exception raised, with the store as the call
  leaves it. In the last statement Python evaluates \<^verbatim>\<open>extra_variables["l1"]\<close> before
  \<^verbatim>\<open>extra_variables["l2"]\<close>, the unary minus binds tighter than \<^verbatim>\<open>*\<close>, and \<^verbatim>\<open>*\<close>
  associates to the left.
\<close>

definition pde_fn ::
  "'t tensor_lib \<Rightarrow> 't heap \<Rightarrow> ref \<Rightarrow> 't \<Rightarrow> ref \<Rightarrow> (error + ref) \<times> 't heap" where
  "pde_fn L h outputs x extra_variables =
     (case getitem (h outputs) ''u'' of Inl e \<Rightarrow> (Inl e, h) | Inr U \<Rightarrow>
      case fwd_gradient L U x of Inl e \<Rightarrow> (Inl e, h) | Inr U_x \<Rightarrow>
      case fwd_gradient L U_x x of Inl e \<Rightarrow> (Inl e, h) | Inr U_xx \<Rightarrow>
      case fwd_gradient L U_xx x of Inl e \<Rightarrow> (Inl e, h) | Inr U_xxx \<Rightarrow>
      case getitem (h extra_variables) ''l1'' of Inl e \<Rightarrow> (Inl e, h) | Inr l1 \<Rightarrow>
      case getitem (h extra_variables) ''l2'' of Inl e \<Rightarrow> (Inl e, h) | Inr l2 \<Rightarrow>
        (Inr outputs,
         h(outputs := (h outputs)(''f'' \<mapsto>
             t_sub L (t_mul L (t_mul L (t_neg L l1) U) U_x)
                     (t_mul L (t_exp L l2) U_xxx)))))"

subsection \<open>32-bit floating point\<close>

text \<open>
  The tensors of the model hold 32-bit floating-point numbers (IEEE 754 binary32): a
  finite number, an infinity or not-a-number. The two zeros of the format are the one
  value \<open>Fin 0\<close>: they compare equal, and the operators used here give results that
  differ at most in the sign of a zero when the sign of a zero operand changes.
\<close>

datatype float32 = Fin real | PInf | NInf | NaN

text \<open>Rounding to the nearest integer, a tie going to the even one.\<close>

definition round_even :: "real \<Rightarrow> int" where
  "round_even x =
     (let n = \<lfloor>x\<rfloor>; d = x - of_int n
      in if d < 1 / 2 then n else if 1 / 2 < d then n + 1 else if even n then n else n + 1)"

text \<open>
  The exponent of a number in the format: that of its leading binary digit, and \<open>-126\<close>
  for the subnormal numbers. A number is rounded to 24 significant binary digits at
  that exponent, that is, to a multiple of \<open>2 powi (exponent - 23)\<close>.
\<close>

definition exponent32 :: "real \<Rightarrow> int" where
  "exponent32 r = max (- 126) \<lfloor>log 2 \<bar>r\<bar>\<rfloor>"

definition round32 :: "real \<Rightarrow> real" where
  "round32 r =
     (if r = 0 then 0
      else of_int (round_even (r / 2 powi (exponent32 r - 23))) * 2 powi (exponent32 r - 23))"

text \<open>
  The largest finite number of the format is \<open>2 ^ 128 - 2 ^ 104\<close>. A result of
  magnitude at least \<open>2 ^ 128 - 2 ^ 103\<close>, half a unit above it, rounds to an infinity.
\<close>

definition overflow32 :: real where
  "overflow32 = 2 ^ 128 - 2 ^ 103"

definition fl :: "real \<Rightarrow> float32" where
  "fl r = (if overflow32 \<le> \<bar>r\<bar> then (if 0 < r then PInf else NInf) else Fin (round32 r))"


text \<open>
  The operators: the exact result, rounded; an infinity times zero and the difference
  of two equal infinities are not-a-number, and not-a-number propagates. The
  exponential is taken as correctly rounded.
\<close>

fun f_neg :: "float32 \<Rightarrow> float32" where
  "f_neg (Fin a) = Fin (- a)"
| "f_neg PInf = NInf"
| "f_neg NInf = PInf"
| "f_neg NaN = NaN"

fun f_add :: "float32 \<Rightarrow> float32 \<Rightarrow> float32" where
  "f_add NaN b = NaN"
| "f_add a NaN = NaN"
| "f_add (Fin a) (Fin b) = fl (a + b)"
| "f_add (Fin a) PInf = PInf"
| "f_add (Fin a) NInf = NInf"
| "f_add PInf (Fin b) = PInf"
| "f_add NInf (Fin b) = NInf"
| "f_add PInf PInf = PInf"
| "f_add NInf NInf = NInf"
| "f_add PInf NInf = NaN"
| "f_add NInf PInf = NaN"

definition f_sub :: "float32 \<Rightarrow> float32 \<Rightarrow> float32" where
  "f_sub a b = f_add a (f_neg b)"

fun f_mul :: "float32 \<Rightarrow> float32 \<Rightarrow> float32" where
  "f_mul NaN b = NaN"
| "f_mul a NaN = NaN"
| "f_mul (Fin a) (Fin b) = fl (a * b)"
| "f_mul (Fin a) PInf = (if a = 0 then NaN else if 0 < a then PInf else NInf)"
| "f_mul (Fin a) NInf = (if a = 0 then NaN else if 0 < a then NInf else PInf)"
| "f_mul PInf (Fin b) = (if b = 0 then NaN else if 0 < b then PInf else NInf)"
| "f_mul NInf (Fin b) = (if b = 0 then NaN else if 0 < b then NInf else PInf)"
| "f_mul PInf PInf = PInf"
| "f_mul PInf NInf = NInf"
| "f_mul NInf PInf = NInf"
| "f_mul NInf NInf = PInf"

fun f_exp :: "float32 \<Rightarrow> float32" where
  "f_exp (Fin a) = fl (exp a)"
| "f_exp PInf = PInf"
| "f_exp NInf = Fin 0"
| "f_exp NaN = NaN"

subsection \<open>Tensors as computation graphs\<close>

text \<open>
  A tensor of the automatic-differentiation library is a node of a computation graph:
  a constant, a leaf that requires differentiation (a coordinate or a learnable
  parameter, named), or the result of an operation on tensors. \<open>tensor_value env t\<close> is
  the 32-bit floating-point number the node holds at one sample point when the leaves
  hold the numbers \<open>env\<close>: every operation is computed in 32-bit floating point.
\<close>

datatype tensor =
    Const float32
  | Var string
  | Neg tensor
  | Add tensor tensor
  | Sub tensor tensor
  | Mul tensor tensor
  | Exp tensor

fun tensor_value :: "(string \<Rightarrow> float32) \<Rightarrow> tensor \<Rightarrow> float32" where
  "tensor_value env (Const c) = c"
| "tensor_value env (Var v) = env v"
| "tensor_value env (Neg a) = f_neg (tensor_value env a)"
| "tensor_value env (Add a b) = f_add (tensor_value env a) (tensor_value env b)"
| "tensor_value env (Sub a b) = f_sub (tensor_value env a) (tensor_value env b)"
| "tensor_value env (Mul a b) = f_mul (tensor_value env a) (tensor_value env b)"
| "tensor_value env (Exp a) = f_exp (tensor_value env a)"




text \<open>
  Forward mode: the tangent of every node is propagated alongside its value through
  the graph, the leaf \<open>v\<close> carrying tangent 1 and every other leaf tangent 0. The
  tangent is again a node of a graph, so that it can be differentiated again.
\<close>

fun tangent :: "string \<Rightarrow> tensor \<Rightarrow> tensor" where
  "tangent v (Const c) = Const (Fin 0)"
| "tangent v (Var w) = Const (Fin (if w = v then 1 else 0))"
| "tangent v (Neg a) = Neg (tangent v a)"
| "tangent v (Add a b) = Add (tangent v a) (tangent v b)"
| "tangent v (Sub a b) = Sub (tangent v a) (tangent v b)"
| "tangent v (Mul a b) = Add (Mul (tangent v a) b) (Mul a (tangent v b))"
| "tangent v (Exp a) = Mul (Exp a) (tangent v a)"

text \<open>
  Modelled from the spec: \<^verbatim>\<open>pinnstorch.utils.fwd_gradient\<close> is defined outside the
  script. The specification describes it as forward-mode automatic differentiation with
  respect to \<open>x\<close>, exact rather than a finite-difference approximation, that fails with
  \<open>NonDifferentiableInputError\<close> if \<open>x\<close> does not require differentiation. Here \<open>x\<close>
  requires differentiation when it is a leaf \<open>Var v\<close> of the graph.
\<close>

definition fwd_gradient_graph :: "tensor \<Rightarrow> tensor \<Rightarrow> error + tensor" where
  "fwd_gradient_graph dy dx =
     (case dx of Var v \<Rightarrow> Inr (tangent v dy) | _ \<Rightarrow> Inl NonDifferentiableInputError)"

text \<open>
  The operators of the library build nodes of the graph; \<open>torch_lib g\<close> is the library
  with \<open>g\<close> for the differentiation, and \<open>graph_lib\<close> the one that differentiates as
  above.
\<close>

definition torch_lib :: "(tensor \<Rightarrow> tensor \<Rightarrow> error + tensor) \<Rightarrow> tensor tensor_lib" where
  "torch_lib g = \<lparr>t_neg = Neg, t_mul = Mul, t_sub = Sub, t_exp = Exp, fwd_gradient = g\<rparr>"

definition graph_lib :: "tensor tensor_lib" where
  "graph_lib = torch_lib fwd_gradient_graph"

subsection \<open>The primitives used by \<^verbatim>\<open>read_data_fn\<close>\<close>

text \<open>
  \<open>load_data w root_path file_name\<close> is \<^verbatim>\<open>pinnstorch.utils.load_data\<close>: it reads
  the world \<open>w\<close> (the file system) and returns the container of the file, a dictionary
  from field names to arrays, or raises; it returns the world as it leaves it.
  \<open>np_real\<close> is \<^verbatim>\<open>np.real\<close>, and \<open>astype_float32 a\<close> is \<^verbatim>\<open>a.astype("float32")\<close>,
  which raises when an element cannot be converted.
\<close>

record ('w, 'a, 'b, 'c) data_lib =
  load_data :: "'w \<Rightarrow> string \<Rightarrow> string \<Rightarrow> (error + 'a dict) \<times> 'w"
  np_real :: "'a \<Rightarrow> 'b"
  astype_float32 :: "'b \<Rightarrow> error + 'c"

subsection \<open>\<^verbatim>\<open>read_data_fn\<close>\<close>

text \<open>
  \<^verbatim>\<open>
  def read_data_fn(root_path):
      data = pinnstorch.utils.load_data(root_path, "KdV.mat")
      exact_u = np.real(data["uu"]).astype("float32")
      return {"u": exact_u}
  \<close>
  The dictionary returned is a new one, so it is returned as a value.
\<close>

definition read_data_fn ::
  "('w, 'a, 'b, 'c) data_lib \<Rightarrow> 'w \<Rightarrow> string \<Rightarrow> (error + 'c dict) \<times> 'w" where
  "read_data_fn D w root_path =
     (case load_data D w root_path ''KdV.mat'' of
        (Inl e, w') \<Rightarrow> (Inl e, w')
      | (Inr data, w') \<Rightarrow>
          (case getitem data ''uu'' of Inl e \<Rightarrow> (Inl e, w') | Inr uu \<Rightarrow>
           case astype_float32 D (np_real D uu) of Inl e \<Rightarrow> (Inl e, w') | Inr exact_u \<Rightarrow>
             (Inr [''u'' \<mapsto> exact_u], w')))"

subsection \<open>Arrays and files\<close>

text \<open>
  A numeric array is its element type, its shape and its elements in row-major order.
  The arrays of a data file hold complex numbers; an array of a real element type holds
  complex numbers with imaginary part zero.
\<close>

datatype dtype = Int64 | Float32 | Float64 | Complex64 | Complex128

record 'a ndarray =
  dtype :: dtype
  shape :: "nat list"
  buffer :: "'a list"

text \<open>
  \<^verbatim>\<open>np.real\<close> keeps the shape and takes the real part of every element; the element
  type of a complex array becomes the real type of the same precision, any other
  element type stays.
\<close>

fun real_dtype :: "dtype \<Rightarrow> dtype" where
  "real_dtype Complex64 = Float32"
| "real_dtype Complex128 = Float64"
| "real_dtype d = d"

definition np_real_array :: "complex ndarray \<Rightarrow> real ndarray" where
  "np_real_array a = \<lparr>dtype = real_dtype (dtype a), shape = shape a, buffer = map Re (buffer a)\<rparr>"

text \<open>
  \<^verbatim>\<open>astype("float32")\<close> of a real numeric array keeps the shape and rounds every
  element to 32-bit floating point; \<open>f32\<close> is that rounding, which is left open.
  The conversion of a numeric array does not raise.
\<close>

definition astype_float32_array :: "(real \<Rightarrow> real) \<Rightarrow> real ndarray \<Rightarrow> error + real ndarray" where
  "astype_float32_array f32 a = Inr \<lparr>dtype = Float32, shape = shape a, buffer = map f32 (buffer a)\<rparr>"

text \<open>
  Modelled from the spec: \<^verbatim>\<open>pinnstorch.utils.load_data\<close> is defined outside the script.
  The specification describes it as locating and parsing the named file of the root
  directory, failing with \<open>DataNotFoundError\<close> if the file is absent, with no side
  effect beyond reading. A file system maps a directory and a file name to the container
  the file holds.
\<close>

type_synonym 'a filesystem = "string \<Rightarrow> string \<rightharpoonup> 'a dict"

definition load_data_fs ::
  "'a filesystem \<Rightarrow> string \<Rightarrow> string \<Rightarrow> (error + 'a dict) \<times> 'a filesystem" where
  "load_data_fs fs root_path file_name =
     (case fs root_path file_name of
        None \<Rightarrow> (Inl DataNotFoundError, fs)
      | Some data \<Rightarrow> (Inr data, fs))"

definition numpy_lib ::
  "(real \<Rightarrow> real) \<Rightarrow> (complex ndarray filesystem, complex ndarray, real ndarray, real ndarray) data_lib" where
  "numpy_lib f32 = \<lparr>load_data = load_data_fs, np_real = np_real_array,
                     astype_float32 = astype_float32_array f32\<rparr>"

subsection \<open>Example inputs\<close>

text \<open>
  A store with an outputs dictionary at address 0 holding \<open>u = x * x * x\<close>, and the
  extra variables at address 1; a sample point; and two file systems, one with a
  \<^verbatim>\<open>KdV.mat\<close> holding a 2 by 2 complex field \<open>uu\<close> and a field \<open>tt\<close>, one whose
  \<^verbatim>\<open>KdV.mat\<close> lacks \<open>uu\<close>.
\<close>

definition kdv_u :: tensor where
  "kdv_u = Mul (Mul (Var ''x'') (Var ''x'')) (Var ''x'')"

definition kdv_heap :: "tensor heap" where
  "kdv_heap = (\<lambda>a. Map.empty)
     (0 := [''u'' \<mapsto> kdv_u],
      1 := [''l1'' \<mapsto> Var ''l1'', ''l2'' \<mapsto> Var ''l2''])"

definition kdv_point :: "string \<Rightarrow> float32" where
  "kdv_point = (\<lambda>v. Fin 0)(''x'' := Fin 1, ''l1'' := Fin 2)"






definition kdv_uu :: "complex ndarray" where
  "kdv_uu = \<lparr>dtype = Complex128, shape = [2, 2],
             buffer = [Complex 1 0, Complex 2 0, Complex 3 0, Complex 4 0]\<rparr>"

definition kdv_tt :: "complex ndarray" where
  "kdv_tt = \<lparr>dtype = Float64, shape = [1, 2], buffer = [Complex 0 0, Complex 1 0]\<rparr>"

definition kdv_fs :: "complex ndarray filesystem" where
  "kdv_fs = (\<lambda>d. Map.empty)(''data'' := [''KdV.mat'' \<mapsto> [''uu'' \<mapsto> kdv_uu, ''tt'' \<mapsto> kdv_tt]])"

definition kdv_fs_no_uu :: "complex ndarray filesystem" where
  "kdv_fs_no_uu = (\<lambda>d. Map.empty)(''data'' := [''KdV.mat'' \<mapsto> [''tt'' \<mapsto> kdv_tt]])"

section \<open>Auxiliary facts\<close>


lemma getitem_None: "d k = None \<Longrightarrow> getitem d k = Inl (KeyError k)"
  by (simp add: getitem_def)


text \<open>Every run either raises and leaves the store as it was, or is the run above.\<close>

lemma pde_fn_cases:
  assumes "pde_fn L h outputs x extra_variables = (r, h')"
  shows "(\<exists>e. r = Inl e \<and> h' = h) \<or>
     (\<exists>U U_x U_xx U_xxx l1 l2.
        h outputs ''u'' = Some U \<and> fwd_gradient L U x = Inr U_x \<and>
        fwd_gradient L U_x x = Inr U_xx \<and> fwd_gradient L U_xx x = Inr U_xxx \<and>
        h extra_variables ''l1'' = Some l1 \<and> h extra_variables ''l2'' = Some l2 \<and>
        r = Inr outputs \<and>
        h' = h(outputs := (h outputs)(''f'' \<mapsto>
                t_sub L (t_mul L (t_mul L (t_neg L l1) U) U_x)
                        (t_mul L (t_exp L l2) U_xxx))))"
  using assms
  by (auto simp: pde_fn_def getitem_def split: option.splits sum.splits)

lemma torch_lib_ops:
  "t_neg (torch_lib g) = Neg" "t_mul (torch_lib g) = Mul" "t_sub (torch_lib g) = Sub"
  "t_exp (torch_lib g) = Exp" "fwd_gradient (torch_lib g) = g"
  by (simp_all add: torch_lib_def)

lemma graph_lib_ops:
  "t_neg graph_lib = Neg" "t_mul graph_lib = Mul" "t_sub graph_lib = Sub"
  "t_exp graph_lib = Exp"
  by (simp_all add: graph_lib_def torch_lib_ops)

lemma fwd_gradient_graph_Var: "fwd_gradient graph_lib dy (Var v) = Inr (tangent v dy)"
  by (simp add: graph_lib_def torch_lib_ops fwd_gradient_graph_def)

lemma fwd_gradient_graph_not_leaf:
  "(\<forall>v. dx \<noteq> Var v) \<Longrightarrow> fwd_gradient graph_lib dy dx = Inl NonDifferentiableInputError"
  by (cases dx) (simp_all add: graph_lib_def torch_lib_ops fwd_gradient_graph_def)

text \<open>Rounding: zero, doubling, and the integers of at most 24 binary digits.\<close>

lemma round_even_of_int: "round_even (of_int n) = n"
  by (simp add: round_even_def)


lemma fl_0: "fl 0 = Fin 0"
  by (simp add: fl_def round32_def overflow32_def)




lemma exponent32_of_int:
  assumes "n \<noteq> 0" "\<bar>n\<bar> < 2 ^ 24"
  shows "0 \<le> exponent32 (of_int n) \<and> exponent32 (of_int n) \<le> 23"
proof -
  have 1: "1 \<le> \<bar>real_of_int n\<bar>"
    using assms(1) by linarith
  have 2: "\<bar>real_of_int n\<bar> < 2 ^ 24"
    using assms(2) by (metis of_int_abs of_int_less_numeral_power_cancel_iff)
  have "0 \<le> log 2 \<bar>real_of_int n\<bar>"
    using 1 by simp
  then have lo: "0 \<le> \<lfloor>log 2 \<bar>real_of_int n\<bar>\<rfloor>"
    by simp
  have "\<bar>real_of_int n\<bar> < 2 powr 24"
    using 2 by (simp only: powr_numeral)
  then have "log 2 \<bar>real_of_int n\<bar> < 24"
    using 1 by (subst log_less_iff) simp_all
  then have hi: "\<lfloor>log 2 \<bar>real_of_int n\<bar>\<rfloor> \<le> 23"
    by (simp add: floor_less_iff)
  show ?thesis
    using lo hi by (simp add: exponent32_def)
qed

lemma round32_of_int:
  assumes "\<bar>n\<bar> < 2 ^ 24"
  shows "round32 (of_int n) = of_int n"
proof (cases "n = 0")
  case True
  then show ?thesis
    by (simp add: round32_def)
next
  case False
  define k where "k = nat (23 - exponent32 (of_int n))"
  from exponent32_of_int [OF False assms]
  have e: "exponent32 (of_int n) - 23 = - int k"
    by (simp add: k_def)
  have p: "(2::real) powi (- int k) = 1 / 2 ^ k"
    by (simp add: power_int_minus field_simps)
  have "real_of_int n / (1 / 2 ^ k) = of_int (n * 2 ^ k)"
    by simp
  then have "round_even (real_of_int n / (1 / 2 ^ k)) = n * 2 ^ k"
    by (simp only: round_even_of_int)
  then show ?thesis
    using False by (simp add: round32_def e p)
qed

lemma fl_of_int:
  assumes "\<bar>n\<bar> < 2 ^ 24"
  shows "fl (of_int n) = Fin (of_int n)"
proof -
  have "\<bar>real_of_int n\<bar> < 2 ^ 24"
    using assms by (metis of_int_abs of_int_less_numeral_power_cancel_iff)
  then have "\<not> overflow32 \<le> \<bar>real_of_int n\<bar>"
    by (simp add: overflow32_def)
  then show ?thesis
    by (simp add: fl_def round32_of_int [OF assms])
qed

lemma fl_numeral:
  "numeral k < (2 ^ 24 :: int) \<Longrightarrow> fl (numeral k) = Fin (numeral k)"
  "numeral k < (2 ^ 24 :: int) \<Longrightarrow> fl (- numeral k) = Fin (- numeral k)"
  using fl_of_int [of "numeral k"] fl_of_int [of "- numeral k"] by simp_all

lemma fl_1: "fl 1 = Fin 1"
  using fl_of_int [of 1] by simp






text \<open>The example store: what the three differentiations of \<open>x * x * x\<close> return.\<close>

lemma kdv_heap_u: "kdv_heap 0 ''u'' = Some kdv_u"
  by (simp add: kdv_heap_def)

lemma kdv_heap_l1: "kdv_heap 1 ''l1'' = Some (Var ''l1'')"
  by (simp add: kdv_heap_def)

lemma kdv_heap_l2: "kdv_heap 1 ''l2'' = Some (Var ''l2'')"
  by (simp add: kdv_heap_def)

lemma kdv_gradient: "fwd_gradient graph_lib dy (Var ''x'') = Inr (tangent ''x'' dy)"
  by (rule fwd_gradient_graph_Var)

text \<open>Every run of \<^verbatim>\<open>read_data_fn\<close> is one of four.\<close>

lemma read_data_fn_cases:
  assumes "read_data_fn D w root_path = (r, w')"
  shows "(\<exists>e. load_data D w root_path ''KdV.mat'' = (Inl e, w') \<and> r = Inl e) \<or>
         (\<exists>data. load_data D w root_path ''KdV.mat'' = (Inr data, w') \<and>
            (data ''uu'' = None \<and> r = Inl (KeyError ''uu'') \<or>
             (\<exists>uu e. data ''uu'' = Some uu \<and>
                astype_float32 D (np_real D uu) = Inl e \<and> r = Inl e) \<or>
             (\<exists>uu exact_u. data ''uu'' = Some uu \<and>
                astype_float32 D (np_real D uu) = Inr exact_u \<and>
                r = Inr [''u'' \<mapsto> exact_u])))"
  using assms
  by (auto simp: read_data_fn_def getitem_def split: prod.splits sum.splits option.splits)

lemma load_data_fs_reads_only: "snd (load_data_fs fs root_path file_name) = fs"
  by (simp add: load_data_fs_def split: option.splits)

lemma kdv_fs_load:
  "load_data (numpy_lib f32) kdv_fs ''data'' ''KdV.mat'' =
     (Inr [''uu'' \<mapsto> kdv_uu, ''tt'' \<mapsto> kdv_tt], kdv_fs)"
  by (simp add: numpy_lib_def load_data_fs_def kdv_fs_def)

lemma kdv_fs_read:
  "read_data_fn (numpy_lib f32) kdv_fs ''data'' =
     (Inr [''u'' \<mapsto> \<lparr>dtype = Float32, shape = [2, 2],
                       buffer = [f32 1, f32 2, f32 3, f32 4]\<rparr>], kdv_fs)"
  by (simp add: read_data_fn_def numpy_lib_def load_data_fs_def kdv_fs_def getitem_def
      np_real_array_def astype_float32_array_def kdv_uu_def)

section \<open>Properties of \<^verbatim>\<open>pde_fn\<close>\<close>

text \<open>
  C1. When \<open>outputs\<close> holds a field \<open>u\<close>, the three differentiations succeed and
  \<open>extra_variables\<close> holds \<open>l1\<close> and \<open>l2\<close>, \<^verbatim>\<open>pde_fn\<close> takes \<open>U_x\<close> to be the forward
  gradient of \<open>u\<close> with respect to \<open>x\<close>, \<open>U_xx\<close> that of \<open>U_x\<close> and \<open>U_xxx\<close> that of
  \<open>U_xx\<close>, stores \<open>-l1 * u * U_x - exp(l2) * U_xxx\<close> under the key \<open>f\<close> of \<open>outputs\<close>
  and returns \<open>outputs\<close>.
\<close>

theorem pde_fn_residual:
  assumes "h outputs ''u'' = Some U"
    and "fwd_gradient L U x = Inr U_x"
    and "fwd_gradient L U_x x = Inr U_xx"
    and "fwd_gradient L U_xx x = Inr U_xxx"
    and "h extra_variables ''l1'' = Some l1"
    and "h extra_variables ''l2'' = Some l2"
  shows "pde_fn L h outputs x extra_variables =
           (Inr outputs,
            h(outputs := (h outputs)(''f'' \<mapsto>
                t_sub L (t_mul L (t_mul L (t_neg L l1) U) U_x)
                        (t_mul L (t_exp L l2) U_xxx))))"
  using assms by (simp add: pde_fn_def getitem_def)

text \<open>
  On the example store, with \<open>u = x * x * x\<close>, \<open>x = 1\<close>, \<open>l1 = 2\<close> and \<open>l2 = 0\<close>:
  \<open>f = - 2 * 1 * 3 - 1 * 6\<close>, computed without rounding error.
\<close>

theorem pde_fn_residual_witness:
  "fst (pde_fn graph_lib kdv_heap 0 (Var ''x'') 1) = Inr 0 \<and>
   (\<exists>f. snd (pde_fn graph_lib kdv_heap 0 (Var ''x'') 1) 0 ''f'' = Some f \<and>
        tensor_value kdv_point f = Fin (- 12))"
  using pde_fn_residual [OF kdv_heap_u kdv_gradient kdv_gradient kdv_gradient
      kdv_heap_l1 kdv_heap_l2]
  by (simp add: graph_lib_ops kdv_u_def kdv_point_def f_sub_def fl_0 fl_1 fl_numeral)

text \<open>
  C4. A call of \<^verbatim>\<open>pde_fn\<close> whose \<open>outputs\<close> holds the key \<open>u\<close> on entry and that
  returns, returns \<open>outputs\<close> with the key \<open>f\<close> in it. The key \<open>u\<close> is a precondition:
  without it the call raises \<open>KeyError\<close> and stores nothing.
\<close>

theorem pde_fn_populates_f:
  "(h outputs ''u'' = None \<longrightarrow>
      pde_fn L h outputs x extra_variables = (Inl (KeyError ''u''), h)) \<and>
   (h outputs ''u'' \<noteq> None \<and> pde_fn L h outputs x extra_variables = (Inr r, h') \<longrightarrow>
      r = outputs \<and> ''f'' \<in> dom (h' r))"
proof (intro conjI impI)
  assume "h outputs ''u'' = None"
  then show "pde_fn L h outputs x extra_variables = (Inl (KeyError ''u''), h)"
    by (simp add: pde_fn_def getitem_def)
next
  assume a: "h outputs ''u'' \<noteq> None \<and> pde_fn L h outputs x extra_variables = (Inr r, h')"
  then have p: "pde_fn L h outputs x extra_variables = (Inr r, h')" ..
  from pde_fn_cases [OF p] show "r = outputs"
    by auto
  from pde_fn_cases [OF p] show "''f'' \<in> dom (h' r)"
    by auto
qed

theorem pde_fn_populates_f_witness:
  "pde_fn graph_lib (\<lambda>a. Map.empty) 0 (Var ''x'') 1 = (Inl (KeyError ''u''), \<lambda>a. Map.empty) \<and>
   fst (pde_fn graph_lib kdv_heap 0 (Var ''x'') 1) = Inr 0 \<and>
   ''f'' \<in> dom (snd (pde_fn graph_lib kdv_heap 0 (Var ''x'') 1) 0)"
proof -
  obtain r h' where p: "pde_fn graph_lib kdv_heap 0 (Var ''x'') 1 = (r, h')"
    by (cases "pde_fn graph_lib kdv_heap 0 (Var ''x'') 1")
  have r: "r = Inr 0"
    using p
    by (simp add: pde_fn_def getitem_def kdv_heap_def graph_lib_def torch_lib_def
        fwd_gradient_graph_def)
  have u: "kdv_heap 0 ''u'' \<noteq> None"
    by (simp add: kdv_heap_def)
  have "''f'' \<in> dom (h' 0)"
    using pde_fn_populates_f [of kdv_heap 0 graph_lib "Var ''x''" 1 0 h'] p r u by simp
  moreover have
    "pde_fn graph_lib (\<lambda>a. Map.empty) 0 (Var ''x'') 1 = (Inl (KeyError ''u''), \<lambda>a. Map.empty)"
    using pde_fn_populates_f [of "\<lambda>a. Map.empty" 0 graph_lib "Var ''x''" 1] by simp
  ultimately show ?thesis
    using p r by simp
qed







text \<open>
  C7. A second call of \<^verbatim>\<open>pde_fn\<close> with the same \<open>outputs\<close>, \<open>x\<close> and
  \<open>extra_variables\<close>, made on the store the first call left, returns what the first
  call returned and leaves the store, and so the value under \<open>f\<close>, as the first call
  left it.
\<close>

theorem pde_fn_idempotent:
  "pde_fn L (snd (pde_fn L h outputs x extra_variables)) outputs x extra_variables =
   pde_fn L h outputs x extra_variables"
  by (auto simp: pde_fn_def getitem_def split: option.splits sum.splits)

theorem pde_fn_idempotent_witness:
  "pde_fn graph_lib (snd (pde_fn graph_lib kdv_heap 0 (Var ''x'') 1)) 0 (Var ''x'') 1 =
   pde_fn graph_lib kdv_heap 0 (Var ''x'') 1"
  by (rule pde_fn_idempotent)

text \<open>
  C8. \<^verbatim>\<open>pde_fn\<close> leaves every entry of every dictionary as it was, the entry \<open>f\<close> of
  \<open>outputs\<close> apart: so the field \<open>u\<close> of \<open>outputs\<close> and \<open>l1\<close> and \<open>l2\<close> of
  \<open>extra_variables\<close> are as before, also when the call raises and also when both
  arguments are the same dictionary. \<^verbatim>\<open>read_data_fn\<close> leaves the world as its one call
  of \<open>load_data\<close> leaves it.
\<close>

theorem callbacks_frame:
  "(\<forall>a k. (a, k) \<noteq> (outputs, ''f'') \<longrightarrow>
      snd (pde_fn L h outputs x extra_variables) a k = h a k) \<and>
   snd (read_data_fn D w root_path) = snd (load_data D w root_path ''KdV.mat'')"
  by (auto simp: pde_fn_def read_data_fn_def getitem_def
      split: option.splits sum.splits prod.splits)

theorem callbacks_frame_witness:
  "snd (pde_fn graph_lib kdv_heap 0 (Var ''x'') 1) 0 ''u'' = Some kdv_u \<and>
   snd (pde_fn graph_lib kdv_heap 0 (Var ''x'') 1) 1 ''l1'' = Some (Var ''l1'') \<and>
   snd (pde_fn graph_lib kdv_heap 0 (Var ''x'') 1) 1 ''l2'' = Some (Var ''l2'') \<and>
   snd (read_data_fn (numpy_lib id) kdv_fs ''data'') = kdv_fs"
proof -
  let ?h' = "snd (pde_fn graph_lib kdv_heap 0 (Var ''x'') 1)"
  note frame = callbacks_frame [where outputs = 0 and L = graph_lib and h = kdv_heap
      and x = "Var ''x''" and extra_variables = 1 and D = "numpy_lib id"
      and w = kdv_fs and root_path = "''data''"]
  from frame have entries: "\<forall>a k. (a, k) \<noteq> (0, ''f'') \<longrightarrow> ?h' a k = kdv_heap a k"
    and world: "snd (read_data_fn (numpy_lib id) kdv_fs ''data'') =
      snd (load_data (numpy_lib id) kdv_fs ''data'' ''KdV.mat'')"
    by blast+
  have "?h' 0 ''u'' = kdv_heap 0 ''u''"
    using entries [rule_format, of 0 "''u''"] by simp
  moreover have "?h' 1 ''l1'' = kdv_heap 1 ''l1''"
    using entries [rule_format, of 1 "''l1''"] by simp
  moreover have "?h' 1 ''l2'' = kdv_heap 1 ''l2''"
    using entries [rule_format, of 1 "''l2''"] by simp
  moreover have "snd (read_data_fn (numpy_lib id) kdv_fs ''data'') = kdv_fs"
    using world by (simp add: kdv_fs_load)
  ultimately show ?thesis
    by (simp only: kdv_heap_u kdv_heap_l1 kdv_heap_l2 simp_thms)
qed



section \<open>Properties of \<^verbatim>\<open>read_data_fn\<close>\<close>



text \<open>
  A \<^verbatim>\<open>KdV.mat\<close> without the field \<open>uu\<close>: the subscript \<^verbatim>\<open>data["uu"]\<close> raises
  \<open>KeyError\<close>, which is what the caller receives, not \<open>DataFormatError\<close>.
\<close>

theorem read_data_fn_missing_field_counterexample:
  "read_data_fn (numpy_lib id) kdv_fs_no_uu ''data'' =
     (Inl (KeyError ''uu''), kdv_fs_no_uu) \<and>
   fst (read_data_fn (numpy_lib id) kdv_fs_no_uu ''data'') \<noteq> Inl DataFormatError"
  by (simp add: read_data_fn_def numpy_lib_def load_data_fs_def kdv_fs_no_uu_def getitem_def)

text \<open>
  C3, amended. On a directory without \<^verbatim>\<open>KdV.mat\<close>, \<^verbatim>\<open>read_data_fn\<close> raises the
  \<open>DataNotFoundError\<close> of \<open>load_data\<close>; on a \<^verbatim>\<open>KdV.mat\<close> without the field \<open>uu\<close> it
  raises \<open>KeyError\<close> for \<open>uu\<close>; and an error raised by the conversion of \<open>uu\<close> is raised
  as it is. Each reaches the caller after the one reading of the file, with nothing
  caught and nothing tried again.
\<close>

theorem read_data_fn_errors:
  assumes "load_data D = load_data_fs"
  shows "(fs root_path ''KdV.mat'' = None \<longrightarrow>
            read_data_fn D fs root_path = (Inl DataNotFoundError, fs)) \<and>
         (\<forall>data. fs root_path ''KdV.mat'' = Some data \<and> data ''uu'' = None \<longrightarrow>
            read_data_fn D fs root_path = (Inl (KeyError ''uu''), fs)) \<and>
         (\<forall>data uu e. fs root_path ''KdV.mat'' = Some data \<and> data ''uu'' = Some uu \<and>
              astype_float32 D (np_real D uu) = Inl e \<longrightarrow>
            read_data_fn D fs root_path = (Inl e, fs))"
  using assms by (simp add: read_data_fn_def load_data_fs_def getitem_def)

text \<open>
  The third case on a library whose conversion rejects every array.
\<close>

theorem read_data_fn_errors_witness:
  "read_data_fn (numpy_lib id) kdv_fs ''elsewhere'' = (Inl DataNotFoundError, kdv_fs) \<and>
   read_data_fn (numpy_lib id) kdv_fs_no_uu ''data'' =
     (Inl (KeyError ''uu''), kdv_fs_no_uu) \<and>
   read_data_fn ((numpy_lib id)\<lparr>astype_float32 := \<lambda>a. Inl DataFormatError\<rparr>) kdv_fs ''data'' =
     (Inl DataFormatError, kdv_fs)"
proof -
  let ?D = "(numpy_lib id)\<lparr>astype_float32 := \<lambda>a. Inl DataFormatError\<rparr>"
  have l: "load_data (numpy_lib id) = load_data_fs"
    and l': "load_data ?D = load_data_fs"
    by (simp_all add: numpy_lib_def)
  have 1: "kdv_fs ''elsewhere'' ''KdV.mat'' = None"
    by (simp add: kdv_fs_def)
  have 2: "kdv_fs_no_uu ''data'' ''KdV.mat'' = Some [''tt'' \<mapsto> kdv_tt] \<and>
      [''tt'' \<mapsto> kdv_tt] ''uu'' = None"
    by (simp add: kdv_fs_no_uu_def)
  have 3: "kdv_fs ''data'' ''KdV.mat'' = Some [''uu'' \<mapsto> kdv_uu, ''tt'' \<mapsto> kdv_tt] \<and>
      [''uu'' \<mapsto> kdv_uu, ''tt'' \<mapsto> kdv_tt] ''uu'' = Some kdv_uu \<and>
      astype_float32 ?D (np_real ?D kdv_uu) = Inl DataFormatError"
    by (simp add: kdv_fs_def)
  show ?thesis
    using read_data_fn_errors [OF l, of kdv_fs "''elsewhere''"]
      read_data_fn_errors [OF l, of kdv_fs_no_uu "''data''"]
      read_data_fn_errors [OF l', of kdv_fs "''data''"] 1 2 3
    by blast
qed

text \<open>
  C9. A dictionary returned by \<^verbatim>\<open>read_data_fn\<close> has the one key \<open>u\<close>, and what it holds
  is computed from the field \<open>uu\<close> of the file alone: no other field of the file reaches
  the caller.
\<close>

theorem read_data_fn_only_u:
  assumes "read_data_fn D w root_path = (Inr m, w')"
  shows "dom m = {''u''} \<and>
         (\<exists>data uu exact_u. load_data D w root_path ''KdV.mat'' = (Inr data, w') \<and>
            data ''uu'' = Some uu \<and> astype_float32 D (np_real D uu) = Inr exact_u \<and>
            m = [''u'' \<mapsto> exact_u])"
  using read_data_fn_cases [OF assms]
  by (auto split: if_splits)

theorem read_data_fn_only_u_witness:
  "\<exists>m. fst (read_data_fn (numpy_lib id) kdv_fs ''data'') = Inr m \<and> dom m = {''u''}"
proof -
  from kdv_fs_read
  obtain m where m: "read_data_fn (numpy_lib id) kdv_fs ''data'' = (Inr m, kdv_fs)" ..
  from read_data_fn_only_u [OF m] show ?thesis
    using m by simp
qed

end
